theory Spec2Isabelle
  imports Main "HOL-Library.Sublist"
begin

section \<open>The contract builder of compile/com.py\<close>

text \<open>
  \<open>compile_contract(address, token_name)\<close> renders two templates into a fresh temporary
  directory, runs the external \<open>aptos\<close> tool on it, and returns the two build outputs
  base64-encoded. Everything outside the function is made explicit here:
  \<^item> the file system is a map from resolved paths (lists of components below the root) to
    nodes, threaded through the call; a path string is resolved component by component,
    with \<open>.\<close> and \<open>..\<close>, as \<open>open\<close> and \<open>stat\<close> do;
  \<^item> \<open>tempfile.TemporaryDirectory()\<close> is a parameter \<open>mkdtemp\<close>: the error text of an
    \<open>OSError\<close>, or the fresh directory's path;
  \<^item> the external tool is a parameter \<open>aptos\<close>: from its argument vector and the file
    system it gives the outcome of \<open>subprocess.run\<close> and the file system it leaves;
  \<^item> \<open>str.lower\<close>, whose case tables are Unicode's, is a parameter \<open>str_lower\<close>;
  \<^item> a Python \<open>Exception\<close> is a value carrying its message (\<open>str(e)\<close>).
  A string is the byte string of its UTF-8 encoding. The \<open>print\<close> calls are modelled by
  the library calls they make (\<open>os.listdir\<close>), which can raise.
\<close>

subsection \<open>Characters used by the templates\<close>

definition nl :: string where "nl = [CHR 0x0A]"
definition dq :: string where "dq = [CHR 0x22]"
definition sq :: string where "sq = [CHR 0x27]"

subsection \<open>The two templates\<close>

definition CONTRACT_TEMPLATE :: "string \<Rightarrow> string \<Rightarrow> string \<Rightarrow> string" where
  "CONTRACT_TEMPLATE address module_name struct_name =
     nl @ ''module '' @ address @ ''::'' @ module_name @ '' {'' @ nl @
     ''    struct '' @ struct_name @ '' {}'' @ nl @
     ''}'' @ nl"

definition MOVE_TOML_TEMPLATE :: "string \<Rightarrow> string \<Rightarrow> string \<Rightarrow> string" where
  "MOVE_TOML_TEMPLATE package_name module_name address =
     nl @ ''[package]'' @ nl @
     ''name = '' @ dq @ package_name @ dq @ nl @
     ''version = '' @ dq @ ''0.0.1'' @ dq @ nl @
     nl @
     ''[dependencies]'' @ nl @
     ''AptosFramework = { git = '' @ dq @ ''https://github.com/aptos-labs/aptos-core.git'' @ dq @
       '', subdir = '' @ dq @ ''aptos-move/framework/aptos-framework/'' @ dq @
       '', rev = '' @ dq @ ''main'' @ dq @ '' }'' @ nl @
     nl @
     ''[addresses]'' @ nl @
     module_name @ '' = '' @ dq @ address @ dq @ nl"

subsection \<open>Library functions the source calls\<close>

text \<open>\<open>str.lower()\<close> on a string of ASCII characters: the letters A..Z move to a..z.
  It stands for \<open>str_lower\<close> in the scenarios, whose token names are ASCII.\<close>

definition ascii_lower_char :: "char \<Rightarrow> char" where
  "ascii_lower_char c =
     (let n = (of_char c :: nat) in if 65 \<le> n \<and> n \<le> 90 then char_of (n + 32) else c)"

definition ascii_lower :: "string \<Rightarrow> string" where
  "ascii_lower s = map ascii_lower_char s"

text \<open>\<open>os.path.join\<close> (posixpath): an absolute component discards what precedes it.\<close>

definition join2 :: "string \<Rightarrow> string \<Rightarrow> string" where
  "join2 a b =
     (if b \<noteq> [] \<and> hd b = CHR ''/'' then b
      else if a = [] \<or> last a = CHR ''/'' then a @ b
      else a @ ''/'' @ b)"

definition path_join :: "string \<Rightarrow> string list \<Rightarrow> string" where
  "path_join a ps = foldl join2 a ps"

text \<open>\<open>base64.b64encode\<close>: the standard alphabet, three bytes to four characters, padded
  with \<open>=\<close>.\<close>

definition b64_alphabet :: string where
  "b64_alphabet = ''ABCDEFGHIJKLMNOPQRSTUVWXYZabcdefghijklmnopqrstuvwxyz0123456789+/''"

definition b64_char :: "nat \<Rightarrow> char" where
  "b64_char n = b64_alphabet ! (n mod 64)"

fun b64encode_nat :: "nat list \<Rightarrow> string" where
  "b64encode_nat [] = []"
| "b64encode_nat [a] =
     [b64_char (a div 4), b64_char ((a mod 4) * 16), CHR ''='', CHR ''='']"
| "b64encode_nat [a, b] =
     [b64_char (a div 4), b64_char ((a mod 4) * 16 + b div 16),
      b64_char ((b mod 16) * 4), CHR ''='']"
| "b64encode_nat (a # b # c # rest) =
     [b64_char (a div 4), b64_char ((a mod 4) * 16 + b div 16),
      b64_char ((b mod 16) * 4 + c div 64), b64_char (c mod 64)] @ b64encode_nat rest"

definition b64encode :: "string \<Rightarrow> string" where
  "b64encode bs = b64encode_nat (map of_char bs)"




subsection \<open>The file system\<close>

datatype node = Dir | File string

type_synonym fs = "string list \<rightharpoonup> node"

datatype exn = Exception string

fun message :: "exn \<Rightarrow> string" where
  "message (Exception m) = m"

text \<open>The components of a path string, as \<open>p.split('/')\<close> gives them.\<close>

fun split_slash :: "string \<Rightarrow> string list" where
  "split_slash [] = [[]]"
| "split_slash (c # cs) =
     (if c = CHR ''/'' then [] # split_slash cs
      else (case split_slash cs of [] \<Rightarrow> [[c]] | x # xs \<Rightarrow> (c # x) # xs))"

text \<open>One step of path resolution from the directory \<open>d\<close>: an empty component and \<open>.\<close>
  stay, \<open>..\<close> goes up (the root is its own parent), a name goes down. A relative path is
  resolved from the root, which is taken as the working directory.\<close>

definition step :: "string list \<Rightarrow> string \<Rightarrow> string list" where
  "step d c = (if c = [] \<or> c = ''.'' then d else if c = ''..'' then butlast d else d @ [c])"

definition canon :: "string \<Rightarrow> string list" where
  "canon p = foldl step [] (split_slash p)"

definition node_at :: "fs \<Rightarrow> string list \<Rightarrow> node option" where
  "node_at fs d = (if d = [] then Some Dir else fs d)"

datatype oserr = ENOENT | ENOTDIR | EISDIR | EEXIST | ENAMETOOLONG | NULBYTE

text \<open>The text of the exception Python raises for a failed call on the path \<open>p\<close>: an
  \<open>OSError\<close> with its number, or the \<open>ValueError\<close> for a NUL byte in the path.\<close>

fun os_exn :: "oserr \<Rightarrow> string \<Rightarrow> exn" where
  "os_exn ENOENT p = Exception (''[Errno 2] No such file or directory: '' @ sq @ p @ sq)"
| "os_exn ENOTDIR p = Exception (''[Errno 20] Not a directory: '' @ sq @ p @ sq)"
| "os_exn EISDIR p = Exception (''[Errno 21] Is a directory: '' @ sq @ p @ sq)"
| "os_exn EEXIST p = Exception (''[Errno 17] File exists: '' @ sq @ p @ sq)"
| "os_exn ENAMETOOLONG p = Exception (''[Errno 36] File name too long: '' @ sq @ p @ sq)"
| "os_exn NULBYTE p = Exception ''embedded null byte''"

text \<open>Every component before the last must be an existing directory.\<close>

fun walk_dirs :: "fs \<Rightarrow> string list \<Rightarrow> string list \<Rightarrow> oserr + string list" where
  "walk_dirs fs d [] = Inr d"
| "walk_dirs fs d (c # cs) =
     (case node_at fs (step d c) of
        Some Dir \<Rightarrow> walk_dirs fs (step d c) cs
      | Some (File _) \<Rightarrow> Inl ENOTDIR
      | None \<Rightarrow> Inl ENOENT)"

text \<open>The checks on the path string itself: no NUL byte, not empty, shorter than
  \<open>PATH_MAX\<close>, no component longer than \<open>NAME_MAX\<close>.\<close>

definition name_error :: "string \<Rightarrow> oserr option" where
  "name_error p =
     (if CHR 0x00 \<in> set p then Some NULBYTE
      else if p = [] then Some ENOENT
      else if 4096 \<le> length p \<or> list_ex (\<lambda>c. 255 < length c) (split_slash p)
      then Some ENAMETOOLONG
      else None)"

definition resolve :: "fs \<Rightarrow> string \<Rightarrow> oserr + string list" where
  "resolve fs p =
     (case name_error p of
        Some e \<Rightarrow> Inl e
      | None \<Rightarrow>
          (case walk_dirs fs [] (butlast (split_slash p)) of
             Inl e \<Rightarrow> Inl e
           | Inr d \<Rightarrow> Inr (step d (last (split_slash p)))))"

text \<open>\<open>os.makedirs(p, exist_ok=True)\<close>, called on a path whose parent has just been
  created, so that its creation of missing parents never runs.\<close>

definition makedirs :: "string \<Rightarrow> fs \<Rightarrow> exn + fs" where
  "makedirs p fs =
     (case resolve fs p of
        Inl e \<Rightarrow> Inl (os_exn e p)
      | Inr q \<Rightarrow>
          (case node_at fs q of
             Some (File _) \<Rightarrow> Inl (os_exn EEXIST p)
           | Some Dir \<Rightarrow> Inr fs
           | None \<Rightarrow> Inr (fs(q \<mapsto> Dir))))"

text \<open>\<open>with open(p, 'w') as f: f.write(content)\<close>\<close>

definition write_file :: "string \<Rightarrow> string \<Rightarrow> fs \<Rightarrow> exn + fs" where
  "write_file p content fs =
     (case resolve fs p of
        Inl e \<Rightarrow> Inl (os_exn e p)
      | Inr q \<Rightarrow>
          (case node_at fs q of
             Some Dir \<Rightarrow> Inl (os_exn EISDIR p)
           | _ \<Rightarrow> Inr (fs(q \<mapsto> File content))))"

text \<open>\<open>with open(p, 'rb') as f: f.read()\<close>\<close>

definition read_file :: "string \<Rightarrow> fs \<Rightarrow> exn + string" where
  "read_file p fs =
     (case resolve fs p of
        Inl e \<Rightarrow> Inl (os_exn e p)
      | Inr q \<Rightarrow>
          (case node_at fs q of
             None \<Rightarrow> Inl (os_exn ENOENT p)
           | Some Dir \<Rightarrow> Inl (os_exn EISDIR p)
           | Some (File bs) \<Rightarrow> Inr bs))"

text \<open>\<open>os.listdir(p)\<close>: only whether it raises matters, its result is printed.\<close>

definition listdir :: "string \<Rightarrow> fs \<Rightarrow> exn + unit" where
  "listdir p fs =
     (case resolve fs p of
        Inl e \<Rightarrow> Inl (os_exn e p)
      | Inr q \<Rightarrow>
          (case node_at fs q of
             None \<Rightarrow> Inl (os_exn ENOENT p)
           | Some (File _) \<Rightarrow> Inl (os_exn ENOTDIR p)
           | Some Dir \<Rightarrow> Inr ()))"

text \<open>\<open>os.path.exists(p)\<close>: false for every error of \<open>stat\<close>.\<close>

definition exists_path :: "string \<Rightarrow> fs \<Rightarrow> bool" where
  "exists_path p fs =
     (case resolve fs p of Inl _ \<Rightarrow> False | Inr q \<Rightarrow> node_at fs q \<noteq> None)"

text \<open>Entering the \<open>TemporaryDirectory\<close> block has created the directory; leaving it
  removes the directory and all below it.\<close>

definition create_dir :: "string \<Rightarrow> fs \<Rightarrow> fs" where
  "create_dir d fs = fs(canon d \<mapsto> Dir)"

definition cleanup :: "string \<Rightarrow> fs \<Rightarrow> fs" where
  "cleanup d fs = (\<lambda>p. if prefix (canon d) p then None else fs p)"

subsection \<open>The external tool\<close>

text \<open>What \<open>subprocess.run(..., capture_output=True, text=True, check=True)\<close> can do:
  raise some exception before the process has run (its \<open>str\<close>), or run the process to an
  exit status with captured standard output and standard error.\<close>

datatype run_outcome = Launch_error string | Exited int string string

type_synonym tool = "string list \<Rightarrow> fs \<Rightarrow> run_outcome \<times> fs"

subsection \<open>compile\_contract\<close>

definition module_name_of :: "string \<Rightarrow> string" where
  "module_name_of token_name = token_name"

definition struct_name_of :: "string \<Rightarrow> string" where
  "struct_name_of token_name = token_name"

definition package_name_of :: "(string \<Rightarrow> string) \<Rightarrow> string \<Rightarrow> string" where
  "package_name_of str_lower token_name = str_lower token_name @ ''_package''"

definition sources_dir_of :: "string \<Rightarrow> string" where
  "sources_dir_of temp_dir = path_join temp_dir [''sources'']"

definition contract_path_of :: "string \<Rightarrow> string \<Rightarrow> string" where
  "contract_path_of temp_dir token_name =
     path_join (sources_dir_of temp_dir) [module_name_of token_name @ ''.move'']"

definition toml_path_of :: "string \<Rightarrow> string" where
  "toml_path_of temp_dir = path_join temp_dir [''Move.toml'']"

definition build_dir_of :: "(string \<Rightarrow> string) \<Rightarrow> string \<Rightarrow> string \<Rightarrow> string" where
  "build_dir_of str_lower temp_dir token_name =
     path_join temp_dir [''build'', package_name_of str_lower token_name]"

definition modules_dir_of :: "(string \<Rightarrow> string) \<Rightarrow> string \<Rightarrow> string \<Rightarrow> string" where
  "modules_dir_of str_lower temp_dir token_name =
     path_join (build_dir_of str_lower temp_dir token_name) [''bytecode_modules'']"

definition module_path_of :: "(string \<Rightarrow> string) \<Rightarrow> string \<Rightarrow> string \<Rightarrow> string" where
  "module_path_of str_lower temp_dir token_name =
     path_join (build_dir_of str_lower temp_dir token_name)
       [''bytecode_modules'', module_name_of token_name @ ''.mv'']"

definition metadata_path_of :: "(string \<Rightarrow> string) \<Rightarrow> string \<Rightarrow> string \<Rightarrow> string" where
  "metadata_path_of str_lower temp_dir token_name =
     path_join (build_dir_of str_lower temp_dir token_name) [''package-metadata.bcs'']"

definition aptos_args :: "string \<Rightarrow> string \<Rightarrow> string \<Rightarrow> string list" where
  "aptos_args temp_dir address token_name =
     [''aptos'', ''move'', ''compile'', ''--save-metadata'', ''--package-dir'', temp_dir,
      ''--named-addresses'', module_name_of token_name @ ''='' @ address]"

text \<open>Lines 31 to 43: the sources directory, the two rendered files, the two listings.\<close>

definition prepare ::
  "(string \<Rightarrow> string) \<Rightarrow> string \<Rightarrow> string \<Rightarrow> string \<Rightarrow> fs \<Rightarrow> (exn + unit) \<times> fs" where
  "prepare str_lower temp_dir address token_name fs0 =
     (case makedirs (sources_dir_of temp_dir) fs0 of
        Inl e \<Rightarrow> (Inl e, fs0)
      | Inr fs1 \<Rightarrow>
     (case write_file (contract_path_of temp_dir token_name)
             (CONTRACT_TEMPLATE address (module_name_of token_name) (struct_name_of token_name)) fs1 of
        Inl e \<Rightarrow> (Inl e, fs1)
      | Inr fs2 \<Rightarrow>
     (case write_file (toml_path_of temp_dir)
             (MOVE_TOML_TEMPLATE (package_name_of str_lower token_name) (module_name_of token_name)
                address) fs2 of
        Inl e \<Rightarrow> (Inl e, fs2)
      | Inr fs3 \<Rightarrow>
     (case listdir temp_dir fs3 of
        Inl e \<Rightarrow> (Inl e, fs3)
      | Inr _ \<Rightarrow>
     (case listdir (sources_dir_of temp_dir) fs3 of
        Inl e \<Rightarrow> (Inl e, fs3)
      | Inr _ \<Rightarrow> (Inr (), fs3))))))"

text \<open>Lines 45 to 53: the subprocess and its two handlers.\<close>

definition run_compile :: "tool \<Rightarrow> string \<Rightarrow> string \<Rightarrow> string \<Rightarrow> fs \<Rightarrow> (exn + unit) \<times> fs" where
  "run_compile aptos temp_dir address token_name fs0 =
     (case aptos (aptos_args temp_dir address token_name) fs0 of
        (Launch_error m, fs1) \<Rightarrow>
          (Inl (Exception (''Unexpected error during compilation: '' @ m)), fs1)
      | (Exited returncode out err, fs1) \<Rightarrow>
          if returncode \<noteq> 0 then (Inl (Exception (''Compilation failed: '' @ out)), fs1)
          else (Inr (), fs1))"

text \<open>Lines 55 to 76: the listings of the build directory, the two existence checks, the
  two reads and the result.\<close>

definition collect ::
  "(string \<Rightarrow> string) \<Rightarrow> string \<Rightarrow> string \<Rightarrow> fs \<Rightarrow> exn + (string \<rightharpoonup> string)" where
  "collect str_lower temp_dir token_name fs0 =
     (let build_dir = build_dir_of str_lower temp_dir token_name;
          module_path = module_path_of str_lower temp_dir token_name;
          metadata_path = metadata_path_of str_lower temp_dir token_name;
          modules_dir = modules_dir_of str_lower temp_dir token_name
      in
     (case (if exists_path build_dir fs0 then listdir build_dir fs0 else Inr ()) of
        Inl e \<Rightarrow> Inl e
      | Inr _ \<Rightarrow>
     (case (if exists_path modules_dir fs0 then listdir modules_dir fs0 else Inr ()) of
        Inl e \<Rightarrow> Inl e
      | Inr _ \<Rightarrow>
        if \<not> exists_path module_path fs0
        then Inl (Exception (''Compiled module file not found at '' @ module_path))
        else if \<not> exists_path metadata_path fs0
        then Inl (Exception (''Metadata file not found at '' @ metadata_path))
        else
     (case read_file module_path fs0 of
        Inl e \<Rightarrow> Inl e
      | Inr module_bytes \<Rightarrow>
     (case read_file metadata_path fs0 of
        Inl e \<Rightarrow> Inl e
      | Inr metadata_bytes \<Rightarrow>
          Inr [''module'' \<mapsto> b64encode module_bytes,
               ''metadata'' \<mapsto> b64encode metadata_bytes])))))"

text \<open>The body of the \<open>with\<close> block, for the directory \<open>temp_dir\<close>.\<close>

definition with_body ::
  "(string \<Rightarrow> string) \<Rightarrow> tool \<Rightarrow> string \<Rightarrow> string \<Rightarrow> string \<Rightarrow> fs \<Rightarrow>
     (exn + (string \<rightharpoonup> string)) \<times> fs" where
  "with_body str_lower aptos temp_dir address token_name fs0 =
     (case prepare str_lower temp_dir address token_name fs0 of
        (Inl e, fs1) \<Rightarrow> (Inl e, fs1)
      | (Inr _, fs1) \<Rightarrow>
     (case run_compile aptos temp_dir address token_name fs1 of
        (Inl e, fs2) \<Rightarrow> (Inl e, fs2)
      | (Inr _, fs2) \<Rightarrow> (collect str_lower temp_dir token_name fs2, fs2)))"

text \<open>The outer handler: every exception is raised again as
  \<open>Exception(f"Unexpected error: {str(e)}")\<close>.\<close>

definition rewrap :: "exn + 'a \<Rightarrow> exn + 'a" where
  "rewrap r = (case r of Inl e \<Rightarrow> Inl (Exception (''Unexpected error: '' @ message e)) | Inr v \<Rightarrow> Inr v)"

definition compile_contract ::
  "(string \<Rightarrow> string) \<Rightarrow> (string + string) \<Rightarrow> tool \<Rightarrow> fs \<Rightarrow> string \<Rightarrow> string \<Rightarrow>
     (exn + (string \<rightharpoonup> string)) \<times> fs" where
  "compile_contract str_lower mkdtemp aptos fs0 address token_name =
     (case mkdtemp of
        Inl m \<Rightarrow> (rewrap (Inl (Exception m)), fs0)
      | Inr temp_dir \<Rightarrow>
          (case with_body str_lower aptos temp_dir address token_name (create_dir temp_dir fs0) of
             (r, fs1) \<Rightarrow> (rewrap r, cleanup temp_dir fs1)))"

subsection \<open>Stub tools and a start state for the scenarios\<close>

definition scenario_fs :: fs where
  "scenario_fs = [[''tmp''] \<mapsto> Dir]"

definition stub_syntax_error :: "string \<Rightarrow> tool" where
  "stub_syntax_error err args fs = (Exited 1 ''syntax error'' err, fs)"

definition stub_not_installed :: tool where
  "stub_not_installed args fs = (Launch_error ''[Errno 2] No such file or directory: aptos'', fs)"

definition stub_success :: "string \<Rightarrow> string \<Rightarrow> tool" where
  "stub_success module_bytes metadata_bytes args fs =
     (Exited 0 [] [],
      fs([''tmp'', ''t'', ''build''] \<mapsto> Dir,
         [''tmp'', ''t'', ''build'', ''mycoin_package''] \<mapsto> Dir,
         [''tmp'', ''t'', ''build'', ''mycoin_package'', ''bytecode_modules''] \<mapsto> Dir,
         [''tmp'', ''t'', ''build'', ''mycoin_package'', ''bytecode_modules'', ''MyCoin.mv'']
           \<mapsto> File module_bytes,
         [''tmp'', ''t'', ''build'', ''mycoin_package'', ''package-metadata.bcs'']
           \<mapsto> File metadata_bytes))"

definition stub_no_bytecode :: tool where
  "stub_no_bytecode args fs =
     (Exited 0 [] [],
      fs([''tmp'', ''t'', ''build''] \<mapsto> Dir,
         [''tmp'', ''t'', ''build'', ''mycoin_package''] \<mapsto> Dir,
         [''tmp'', ''t'', ''build'', ''mycoin_package'', ''package-metadata.bcs''] \<mapsto> File []))"

definition stub_build_is_file :: tool where
  "stub_build_is_file args fs =
     (Exited 0 [] [],
      fs([''tmp'', ''t'', ''build''] \<mapsto> Dir,
         [''tmp'', ''t'', ''build'', ''mycoin_package''] \<mapsto> File []))"


section \<open>Properties\<close>

subsection \<open>Evaluation of the scenarios\<close>

lemma ascii_lower_char_MyCoin [simp]:
  "ascii_lower_char (CHR ''M'') = CHR ''m''" "ascii_lower_char (CHR ''y'') = CHR ''y''"
  "ascii_lower_char (CHR ''C'') = CHR ''c''" "ascii_lower_char (CHR ''o'') = CHR ''o''"
  "ascii_lower_char (CHR ''i'') = CHR ''i''" "ascii_lower_char (CHR ''n'') = CHR ''n''"
  "ascii_lower_char (CHR ''/'') = CHR ''/''" "ascii_lower_char (CHR ''x'') = CHR ''x''"
  "ascii_lower_char (CHR ''a'') = CHR ''a''" "ascii_lower_char (CHR ''b'') = CHR ''b''"
  by code_simp+

lemmas path_defs = sources_dir_of_def contract_path_of_def toml_path_of_def build_dir_of_def
  modules_dir_of_def module_path_of_def metadata_path_of_def path_join_def join2_def
  module_name_of_def struct_name_of_def package_name_of_def ascii_lower_def

lemmas fs_defs = makedirs_def write_file_def read_file_def listdir_def exists_path_def
  resolve_def name_error_def node_at_def step_def canon_def create_dir_def

lemmas run_defs = compile_contract_def with_body_def run_compile_def collect_def rewrap_def
  prepare_def aptos_args_def scenario_fs_def b64encode_def

lemma rewrap_Inl_iff:
  "rewrap r = Inl e \<longleftrightarrow> (\<exists>e'. r = Inl e' \<and> e = Exception (''Unexpected error: '' @ message e'))"
  by (cases r) (auto simp: rewrap_def)

lemma compile_contract_Inr:
  "compile_contract str_lower (Inr temp_dir) aptos fs0 address token_name =
     (rewrap (fst (with_body str_lower aptos temp_dir address token_name (create_dir temp_dir fs0))),
      cleanup temp_dir
        (snd (with_body str_lower aptos temp_dir address token_name (create_dir temp_dir fs0))))"
  by (simp add: compile_contract_def split: prod.splits)

lemma prepare_scenario:
  "prepare ascii_lower ''/tmp/t'' ''0x1'' ''MyCoin'' (create_dir ''/tmp/t'' scenario_fs) =
     (Inr (), snd (prepare ascii_lower ''/tmp/t'' ''0x1'' ''MyCoin'' (create_dir ''/tmp/t'' scenario_fs)))"
proof -
  have "fst (prepare ascii_lower ''/tmp/t'' ''0x1'' ''MyCoin'' (create_dir ''/tmp/t'' scenario_fs)) = Inr ()"
    by (simp add: prepare_def scenario_fs_def path_defs fs_defs)
  then show ?thesis by (simp add: prod_eq_iff)
qed

subsection \<open>Path strings and resolved paths\<close>

lemma split_slash_not_Nil [simp]: "split_slash s \<noteq> []"
  by (induction s) (auto split: list.splits)

lemma split_slash_append_slash:
  "split_slash (a @ CHR ''/'' # b) = split_slash a @ split_slash b"
proof (induction a)
  case Nil
  show ?case by simp
next
  case (Cons c a)
  then show ?case
    by (cases "split_slash a") auto
qed

lemma split_slash_plain: "CHR ''/'' \<notin> set s \<Longrightarrow> split_slash s = [s]"
  by (induction s) auto

lemma split_slash_append_plain:
  "CHR ''/'' \<notin> set b \<Longrightarrow>
     split_slash (a @ b) = butlast (split_slash a) @ [last (split_slash a) @ b]"
proof (induction a)
  case Nil
  then show ?case by (simp add: split_slash_plain)
next
  case (Cons c a)
  obtain x xs where x: "split_slash a = x # xs"
    by (cases "split_slash a") auto
  with Cons show ?case
    by (cases xs) auto
qed

lemma last_split_slash_append:
  "CHR ''/'' \<notin> set b \<Longrightarrow> last (split_slash (a @ b)) = last (split_slash a) @ b"
  by (simp add: split_slash_append_plain)

lemma canon_append_slash: "canon (a @ CHR ''/'' # b) = foldl step (canon a) (split_slash b)"
  by (simp add: canon_def split_slash_append_slash)

lemma step_empty [simp]: "step d [] = d"
  by (simp add: step_def)

lemma canon_join2:
  assumes "\<not> prefix ''/'' b"
  shows "canon (join2 a b) = foldl step (canon a) (split_slash b)"
proof (cases "a = []")
  case True
  with assms show ?thesis by (cases b) (auto simp: join2_def canon_def)
next
  case False
  note a = this
  show ?thesis
  proof (cases "last a = CHR ''/''")
    case True
    with a obtain a' where a': "a = a' @ ''/''"
      by (metis append_butlast_last_id)
    have "canon a = canon a'"
      using canon_append_slash [of a' "[]"] a' by simp
    moreover have "join2 a b = a' @ CHR ''/'' # b"
      using assms a True a' by (cases b) (auto simp: join2_def)
    ultimately show ?thesis by (simp add: canon_append_slash)
  next
    case False
    then have "join2 a b = a @ CHR ''/'' # b"
      using assms a by (cases b) (auto simp: join2_def)
    then show ?thesis by (simp add: canon_append_slash)
  qed
qed

lemma step_name:
  "c \<noteq> [] \<Longrightarrow> c \<noteq> ''.'' \<Longrightarrow> c \<noteq> ''..'' \<Longrightarrow> step d c = d @ [c]"
  by (simp add: step_def)

lemma canon_sources_dir: "canon (sources_dir_of temp_dir) = canon temp_dir @ [''sources'']"
  by (simp add: sources_dir_of_def path_join_def canon_join2 split_slash_plain step_def)

lemma canon_toml_path: "canon (toml_path_of temp_dir) = canon temp_dir @ [''Move.toml'']"
  by (simp add: toml_path_of_def path_join_def canon_join2 split_slash_plain step_def)

lemma canon_contract_path:
  assumes "CHR ''/'' \<notin> set token_name"
  shows "canon (contract_path_of temp_dir token_name) =
           canon temp_dir @ [''sources'', token_name @ ''.move'']"
proof -
  have n: "\<not> prefix ''/'' (token_name @ ''.move'')"
    using assms by (cases token_name) auto
  have s: "split_slash (token_name @ ''.move'') = [token_name @ ''.move'']"
    using assms by (simp add: split_slash_plain)
  have "step (canon temp_dir @ [''sources'']) (token_name @ ''.move'') =
          canon temp_dir @ [''sources'', token_name @ ''.move'']"
    by (cases token_name rule: rev_cases) (auto simp: step_def)
  then show ?thesis
    by (simp add: contract_path_of_def module_name_of_def path_join_def canon_join2 [OF n] s
          canon_sources_dir)
qed

subsection \<open>What the preparation leaves\<close>

lemma walk_dirs_result: "walk_dirs fs d cs = Inr r \<Longrightarrow> r = foldl step d cs"
  by (induction cs arbitrary: d) (auto split: option.splits node.splits)


lemma walk_dirs_is_dir:
  "walk_dirs fs d cs = Inr r \<Longrightarrow> cs \<noteq> [] \<Longrightarrow> node_at fs r = Some Dir"
proof (induction cs arbitrary: d)
  case Nil
  then show ?case by simp
next
  case (Cons c cs)
  then show ?case
    by (cases cs) (auto split: option.splits node.splits)
qed

lemma resolve_canon: "resolve fs p = Inr q \<Longrightarrow> q = canon p"
proof -
  assume r: "resolve fs p = Inr q"
  then obtain d where d: "walk_dirs fs [] (butlast (split_slash p)) = Inr d"
    and q: "q = step d (last (split_slash p))"
    by (auto simp: resolve_def split: option.splits sum.splits)
  have "canon p = foldl step [] (butlast (split_slash p) @ [last (split_slash p)])"
    by (simp add: canon_def)
  also have "\<dots> = step (foldl step [] (butlast (split_slash p))) (last (split_slash p))"
    by (simp only: foldl_append foldl.simps)
  finally show ?thesis
    using walk_dirs_result [OF d] q by simp
qed

lemma makedirs_success:
  "makedirs p fs = Inr fs' \<Longrightarrow> fs' = fs \<or> fs' = fs(canon p \<mapsto> Dir)"
  by (auto simp: makedirs_def split: sum.splits option.splits node.splits dest: resolve_canon)

lemma write_file_success:
  "write_file p content fs = Inr fs' \<Longrightarrow> fs' = fs(canon p \<mapsto> File content)"
  by (auto simp: write_file_def split: sum.splits option.splits node.splits dest: resolve_canon)

lemma prepare_success:
  assumes "prepare str_lower temp_dir address token_name fs_init = (Inr (), fs_ready)"
  shows "\<exists>fs1. fs_ready =
           fs1(canon (contract_path_of temp_dir token_name) \<mapsto>
                 File (CONTRACT_TEMPLATE address (module_name_of token_name)
                         (struct_name_of token_name)),
               canon (toml_path_of temp_dir) \<mapsto>
                 File (MOVE_TOML_TEMPLATE (package_name_of str_lower token_name)
                         (module_name_of token_name) address))"
  using assms
  by (auto simp: prepare_def split: sum.splits dest!: write_file_success)

text \<open>The source file's resolved path ends in a name with the suffix \<open>.move\<close>, so it is
  not the manifest's.\<close>

lemma canon_dot_move:
  "\<exists>d l. canon (x @ ''.move'') = d @ [l @ ''.move'']"
proof -
  have l: "last (split_slash (x @ ''.move'')) = last (split_slash x) @ ''.move''"
    by (rule last_split_slash_append) simp
  have "canon (x @ ''.move'') =
          foldl step [] (butlast (split_slash (x @ ''.move'')) @ [last (split_slash (x @ ''.move''))])"
    by (simp add: canon_def)
  also have "\<dots> = step (foldl step [] (butlast (split_slash (x @ ''.move''))))
                     (last (split_slash x) @ ''.move'')"
    by (simp only: foldl_append foldl.simps l)
  also have "\<dots> = foldl step [] (butlast (split_slash (x @ ''.move''))) @
                     [last (split_slash x) @ ''.move'']"
    by (cases "last (split_slash x)" rule: rev_cases) (auto simp: step_def)
  finally show ?thesis by blast
qed

lemma contract_path_dot_move:
  "\<exists>x. contract_path_of temp_dir token_name = x @ ''.move''"
  by (auto simp: contract_path_of_def path_join_def join2_def module_name_of_def)

lemma contract_path_not_toml_path:
  "canon (contract_path_of temp_dir token_name) \<noteq> canon (toml_path_of temp_dir)"
proof -
  obtain x where x: "contract_path_of temp_dir token_name = x @ ''.move''"
    using contract_path_dot_move by blast
  obtain d l where d: "canon (x @ ''.move'') = d @ [l @ ''.move'']"
    using canon_dot_move by blast
  have "last (canon (contract_path_of temp_dir token_name)) = l @ ''.move''"
    using x d by simp
  moreover have "last (canon (toml_path_of temp_dir)) = ''Move.toml''"
    by (simp add: canon_toml_path)
  moreover have "l @ ''.move'' \<noteq> ''Move.toml''"
    by (cases l rule: rev_cases) auto
  ultimately show ?thesis by metis
qed

lemma prepare_files:
  assumes "prepare str_lower temp_dir address token_name fs_init = (Inr (), fs_ready)"
  shows "fs_ready (canon (contract_path_of temp_dir token_name)) =
           Some (File (CONTRACT_TEMPLATE address (module_name_of token_name)
                         (struct_name_of token_name)))"
    and "fs_ready (canon (toml_path_of temp_dir)) =
           Some (File (MOVE_TOML_TEMPLATE (package_name_of str_lower token_name)
                         (module_name_of token_name) address))"
  using prepare_success [OF assms] contract_path_not_toml_path [of temp_dir token_name]
  by auto

subsection \<open>The temporary directory is released\<close>

text \<open>
  C4. Whatever the outcome of the call, once the temporary directory has been created,
  neither it nor any path below it exists in the file system the call leaves behind.
\<close>

theorem build_directory_removed:
  assumes "mkdtemp = Inr temp_dir" and "prefix (canon temp_dir) p"
  shows "snd (compile_contract str_lower mkdtemp aptos fs_init address token_name) p = None"
  using assms by (simp add: compile_contract_Inr cleanup_def)

theorem build_directory_removed_witness:
  "snd (compile_contract ascii_lower (Inr ''/tmp/t'') (stub_success [] []) scenario_fs ''0x1'' ''MyCoin'')
     [''tmp'', ''t'', ''build'', ''mycoin_package'', ''package-metadata.bcs''] = None"
proof -
  have u: "prefix (canon ''/tmp/t'')
             [''tmp'', ''t'', ''build'', ''mycoin_package'', ''package-metadata.bcs'']"
    by (simp add: canon_def step_def)
  show ?thesis
    using build_directory_removed [OF refl u] by simp
qed

subsection \<open>Failures\<close>

text \<open>
  C9. Every exception that reaches the caller has a message that starts with
  \<open>Unexpected error: \<close>, the errors raised inside the function for a failed compilation
  or a missing file included.
\<close>

theorem every_failure_has_unexpected_error_prefix:
  assumes "fst (compile_contract str_lower mkdtemp aptos fs_init address token_name) = Inl e"
  shows "prefix ''Unexpected error: '' (message e)"
proof (cases mkdtemp)
  case (Inl m)
  with assms show ?thesis by (auto simp: compile_contract_def rewrap_def)
next
  case (Inr temp_dir)
  with assms show ?thesis by (auto simp: compile_contract_Inr rewrap_Inl_iff)
qed

theorem every_failure_has_unexpected_error_prefix_witness:
  "fst (compile_contract ascii_lower (Inr ''/tmp/t'') (stub_syntax_error []) scenario_fs ''0x1'' ''MyCoin'') =
     Inl (Exception ''Unexpected error: Compilation failed: syntax error'') \<and>
   prefix ''Unexpected error: ''
     (message (Exception ''Unexpected error: Compilation failed: syntax error''))"
proof -
  have h: "fst (compile_contract ascii_lower (Inr ''/tmp/t'') (stub_syntax_error []) scenario_fs
                  ''0x1'' ''MyCoin'') =
             Inl (Exception ''Unexpected error: Compilation failed: syntax error'')"
    by (simp add: run_defs stub_syntax_error_def path_defs fs_defs split: prod.splits)
  from every_failure_has_unexpected_error_prefix [OF h] h show ?thesis by blast
qed

text \<open>
  C2. When the tool has been run and exits with a non-zero status, the call fails with an
  exception whose message is \<open>Unexpected error: Compilation failed: \<close> followed by the
  captured output; for the status 1 and the output \<open>syntax error\<close> the message contains
  \<open>syntax error\<close>.
\<close>

theorem nonzero_exit_raises_with_output:
  assumes "mkdtemp = Inr temp_dir"
    and "prepare str_lower temp_dir address token_name (create_dir temp_dir fs_init) = (Inr (), fs_ready)"
    and "aptos (aptos_args temp_dir address token_name) fs_ready = (Exited returncode out err, fs_built)"
    and "returncode \<noteq> 0"
  shows "fst (compile_contract str_lower mkdtemp aptos fs_init address token_name) =
           Inl (Exception (''Unexpected error: Compilation failed: '' @ out))"
  using assms
  by (simp add: compile_contract_Inr with_body_def run_compile_def rewrap_def)

theorem nonzero_exit_raises_with_output_witness:
  "fst (compile_contract ascii_lower (Inr ''/tmp/t'') (stub_syntax_error ''boom'') scenario_fs
          ''0x1'' ''MyCoin'') =
     Inl (Exception ''Unexpected error: Compilation failed: syntax error'')"
proof -
  let ?ready = "snd (prepare ascii_lower ''/tmp/t'' ''0x1'' ''MyCoin'' (create_dir ''/tmp/t'' scenario_fs))"
  have r: "stub_syntax_error ''boom'' (aptos_args ''/tmp/t'' ''0x1'' ''MyCoin'') ?ready =
             (Exited 1 ''syntax error'' ''boom'', ?ready)"
    by (simp add: stub_syntax_error_def)
  have z: "(1::int) \<noteq> 0" by simp
  show ?thesis
    using nonzero_exit_raises_with_output
      [where str_lower = ascii_lower and mkdtemp = "Inr ''/tmp/t''" and temp_dir = "''/tmp/t''"
         and fs_init = scenario_fs
         and aptos = "stub_syntax_error ''boom''" and address = "''0x1''"
         and token_name = "''MyCoin''" and fs_ready = ?ready and fs_built = ?ready and returncode = 1
         and out = "''syntax error''" and err = "''boom''"]
      prepare_scenario r z
    by simp
qed

text \<open>
  C10. When the tool exits with a non-zero status, the raised message is built from the
  captured standard output alone: two runs that differ only in what the tool wrote to
  standard error raise the same exception.
\<close>

theorem stderr_not_in_message:
  assumes "mkdtemp = Inr temp_dir"
    and "prepare str_lower temp_dir address token_name (create_dir temp_dir fs_init) = (Inr (), fs_ready)"
    and "aptos (aptos_args temp_dir address token_name) fs_ready = (Exited returncode out err, fs_built)"
    and "aptos' (aptos_args temp_dir address token_name) fs_ready = (Exited returncode out err', fs_built)"
    and "returncode \<noteq> 0"
  shows "fst (compile_contract str_lower mkdtemp aptos fs_init address token_name) =
           fst (compile_contract str_lower mkdtemp aptos' fs_init address token_name)"
  using assms
  by (simp add: compile_contract_Inr with_body_def run_compile_def rewrap_def)

theorem stderr_not_in_message_witness:
  "fst (compile_contract ascii_lower (Inr ''/tmp/t'') (stub_syntax_error ''boom'') scenario_fs
          ''0x1'' ''MyCoin'') =
   fst (compile_contract ascii_lower (Inr ''/tmp/t'') (stub_syntax_error ''warning'') scenario_fs
          ''0x1'' ''MyCoin'')"
proof -
  let ?ready = "snd (prepare ascii_lower ''/tmp/t'' ''0x1'' ''MyCoin'' (create_dir ''/tmp/t'' scenario_fs))"
  have r: "stub_syntax_error ''boom'' (aptos_args ''/tmp/t'' ''0x1'' ''MyCoin'') ?ready =
             (Exited 1 ''syntax error'' ''boom'', ?ready)"
    by (simp add: stub_syntax_error_def)
  have r': "stub_syntax_error ''warning'' (aptos_args ''/tmp/t'' ''0x1'' ''MyCoin'') ?ready =
             (Exited 1 ''syntax error'' ''warning'', ?ready)"
    by (simp add: stub_syntax_error_def)
  have z: "(1::int) \<noteq> 0" by simp
  show ?thesis
    using stderr_not_in_message
      [where str_lower = ascii_lower and mkdtemp = "Inr ''/tmp/t''" and temp_dir = "''/tmp/t''"
         and fs_init = scenario_fs
         and aptos = "stub_syntax_error ''boom''" and aptos' = "stub_syntax_error ''warning''"
         and address = "''0x1''" and token_name = "''MyCoin''" and fs_ready = ?ready
         and fs_built = ?ready and returncode = 1 and out = "''syntax error''"
         and err = "''boom''" and err' = "''warning''"]
      prepare_scenario r r' z
    by simp
qed

subsection \<open>One failure type, the original text kept\<close>

text \<open>
  C8. Every failure of the call is an \<open>Exception\<close> raised by the outer handler, and
  its message is \<open>Unexpected error: \<close> followed by the text of what went wrong: the error
  of creating the temporary directory, the error of a file-system call while the files
  are written, the launch error of the subprocess, the captured output of a subprocess
  that exited with a non-zero status, or the error found while the outputs are collected
  (a missing file, a failed listing or read).
\<close>

theorem failures_wrapped_with_original_text:
  assumes "fst (compile_contract str_lower mkdtemp aptos fs_init address token_name) = Inl e"
  shows "(\<exists>m. mkdtemp = Inl m \<and> message e = ''Unexpected error: '' @ m) \<or>
         (\<exists>temp_dir e'. mkdtemp = Inr temp_dir \<and>
            fst (prepare str_lower temp_dir address token_name (create_dir temp_dir fs_init)) = Inl e' \<and>
            message e = ''Unexpected error: '' @ message e') \<or>
         (\<exists>temp_dir fs_ready m fs_built. mkdtemp = Inr temp_dir \<and>
            prepare str_lower temp_dir address token_name (create_dir temp_dir fs_init) =
              (Inr (), fs_ready) \<and>
            aptos (aptos_args temp_dir address token_name) fs_ready = (Launch_error m, fs_built) \<and>
            message e = ''Unexpected error: Unexpected error during compilation: '' @ m) \<or>
         (\<exists>temp_dir fs_ready returncode out err fs_built. mkdtemp = Inr temp_dir \<and>
            prepare str_lower temp_dir address token_name (create_dir temp_dir fs_init) =
              (Inr (), fs_ready) \<and>
            aptos (aptos_args temp_dir address token_name) fs_ready =
              (Exited returncode out err, fs_built) \<and> returncode \<noteq> 0 \<and>
            message e = ''Unexpected error: Compilation failed: '' @ out) \<or>
         (\<exists>temp_dir fs_ready out err fs_built e'. mkdtemp = Inr temp_dir \<and>
            prepare str_lower temp_dir address token_name (create_dir temp_dir fs_init) =
              (Inr (), fs_ready) \<and>
            aptos (aptos_args temp_dir address token_name) fs_ready = (Exited 0 out err, fs_built) \<and>
            collect str_lower temp_dir token_name fs_built = Inl e' \<and>
            message e = ''Unexpected error: '' @ message e')"
proof (cases mkdtemp)
  case (Inl m)
  with assms show ?thesis by (auto simp: compile_contract_def rewrap_def)
next
  case (Inr temp_dir)
  let ?start = "create_dir temp_dir fs_init"
  from assms Inr obtain e' where
    body: "fst (with_body str_lower aptos temp_dir address token_name ?start) = Inl e'"
    and msg: "message e = ''Unexpected error: '' @ message e'"
    by (auto simp: compile_contract_Inr rewrap_Inl_iff)
  obtain r fs_ready where p: "prepare str_lower temp_dir address token_name ?start = (r, fs_ready)"
    by (cases "prepare str_lower temp_dir address token_name ?start")
  show ?thesis
  proof (cases r)
    case (Inl ep)
    with p body have "e' = ep" by (simp add: with_body_def)
    with Inl p msg Inr show ?thesis by auto
  next
    case (Inr u)
    then have p': "prepare str_lower temp_dir address token_name ?start = (Inr (), fs_ready)"
      using p by simp
    obtain oc fs_built where
      t: "aptos (aptos_args temp_dir address token_name) fs_ready = (oc, fs_built)"
      by (cases "aptos (aptos_args temp_dir address token_name) fs_ready")
    show ?thesis
    proof (cases oc)
      case (Launch_error m)
      with p' t body have "message e' = ''Unexpected error during compilation: '' @ m"
        by (auto simp: with_body_def run_compile_def)
      with msg p' t Launch_error \<open>mkdtemp = Inr temp_dir\<close> show ?thesis by auto
    next
      case (Exited returncode out err)
      show ?thesis
      proof (cases "returncode = 0")
        case True
        with p' t body Exited have "collect str_lower temp_dir token_name fs_built = Inl e'"
          by (simp add: with_body_def run_compile_def)
        with msg p' t Exited True \<open>mkdtemp = Inr temp_dir\<close> show ?thesis by blast
      next
        case False
        with p' t body Exited have "message e' = ''Compilation failed: '' @ out"
          by (auto simp: with_body_def run_compile_def)
        with msg p' t Exited False \<open>mkdtemp = Inr temp_dir\<close> show ?thesis by auto
      qed
    qed
  qed
qed

theorem failures_wrapped_with_original_text_witness:
  "fst (compile_contract ascii_lower (Inr ''/tmp/t'') stub_not_installed scenario_fs ''0x1'' ''MyCoin'') =
     Inl (Exception (''Unexpected error: Unexpected error during compilation: '' @
                     ''[Errno 2] No such file or directory: aptos'')) \<and>
   (\<exists>fs_ready m fs_built.
      prepare ascii_lower ''/tmp/t'' ''0x1'' ''MyCoin'' (create_dir ''/tmp/t'' scenario_fs) =
        (Inr (), fs_ready) \<and>
      stub_not_installed (aptos_args ''/tmp/t'' ''0x1'' ''MyCoin'') fs_ready = (Launch_error m, fs_built) \<and>
      ''Unexpected error: Unexpected error during compilation: '' @
        ''[Errno 2] No such file or directory: aptos'' =
      ''Unexpected error: Unexpected error during compilation: '' @ m)"
proof -
  have h: "fst (compile_contract ascii_lower (Inr ''/tmp/t'') stub_not_installed scenario_fs
                  ''0x1'' ''MyCoin'') =
     Inl (Exception (''Unexpected error: Unexpected error during compilation: '' @
                     ''[Errno 2] No such file or directory: aptos''))"
    by (simp add: run_defs stub_not_installed_def path_defs fs_defs split: prod.splits)
  have p: "fst (prepare ascii_lower ''/tmp/t'' ''0x1'' ''MyCoin'' (create_dir ''/tmp/t'' scenario_fs)) = Inr ()"
    using prepare_scenario by (metis fst_conv)
  from failures_wrapped_with_original_text [OF h] p
  have "\<exists>fs_ready m fs_built.
      prepare ascii_lower ''/tmp/t'' ''0x1'' ''MyCoin'' (create_dir ''/tmp/t'' scenario_fs) =
        (Inr (), fs_ready) \<and>
      stub_not_installed (aptos_args ''/tmp/t'' ''0x1'' ''MyCoin'') fs_ready = (Launch_error m, fs_built) \<and>
      ''Unexpected error: Unexpected error during compilation: '' @
        ''[Errno 2] No such file or directory: aptos'' =
      ''Unexpected error: Unexpected error during compilation: '' @ m"
    by (auto simp: stub_not_installed_def)
  with h show ?thesis by blast
qed

lemma tool_consulted_once:
  assumes "prepare str_lower temp_dir address token_name (create_dir temp_dir fs_init) = (Inr (), fs_ready)"
    and "aptos (aptos_args temp_dir address token_name) fs_ready =
           aptos' (aptos_args temp_dir address token_name) fs_ready"
  shows "compile_contract str_lower (Inr temp_dir) aptos fs_init address token_name =
           compile_contract str_lower (Inr temp_dir) aptos' fs_init address token_name"
  using assms by (simp add: compile_contract_def with_body_def run_compile_def)

subsection \<open>Derived names\<close>

text \<open>
  C5. The module name is the token name itself, the struct name is the module name, and
  the package name is the lower-cased token name followed by \<open>_package\<close>. The names are
  local to the call; they show in what it hands to the tool, the only place the call
  consults it: the named-address argument \<open><token_name>=<address>\<close>, the source file
  declaring module and struct \<open><token_name>\<close>, and the manifest with
  \<open>name = "<lower-cased token_name>_package"\<close>. For the token name \<open>Coin\<close> the manifest
  written before the tool runs names the package \<open>coin_package\<close>.
\<close>

theorem names_derived_from_token_name:
  assumes "mkdtemp = Inr temp_dir"
    and "prepare str_lower temp_dir address token_name (create_dir temp_dir fs_init) = (Inr (), fs_ready)"
  shows "module_name_of token_name = token_name \<and>
         struct_name_of token_name = module_name_of token_name \<and>
         package_name_of str_lower token_name = str_lower token_name @ ''_package'' \<and>
         aptos_args temp_dir address token_name =
           [''aptos'', ''move'', ''compile'', ''--save-metadata'', ''--package-dir'', temp_dir,
            ''--named-addresses'', token_name @ ''='' @ address] \<and>
         fs_ready (canon (contract_path_of temp_dir token_name)) =
           Some (File (nl @ ''module '' @ address @ ''::'' @ token_name @ '' {'' @ nl @
                       ''    struct '' @ token_name @ '' {}'' @ nl @ ''}'' @ nl)) \<and>
         (\<exists>before after. fs_ready (canon (toml_path_of temp_dir)) =
            Some (File (before @ ''name = '' @ dq @ str_lower token_name @ ''_package'' @ dq @ after))) \<and>
         (\<forall>aptos aptos'.
            aptos (aptos_args temp_dir address token_name) fs_ready =
              aptos' (aptos_args temp_dir address token_name) fs_ready \<longrightarrow>
            compile_contract str_lower mkdtemp aptos fs_init address token_name =
              compile_contract str_lower mkdtemp aptos' fs_init address token_name)"
proof -
  have src: "fs_ready (canon (contract_path_of temp_dir token_name)) =
           Some (File (nl @ ''module '' @ address @ ''::'' @ token_name @ '' {'' @ nl @
                       ''    struct '' @ token_name @ '' {}'' @ nl @ ''}'' @ nl))"
    using prepare_files(1) [OF assms(2)]
    by (simp add: CONTRACT_TEMPLATE_def module_name_of_def struct_name_of_def)
  have "fs_ready (canon (toml_path_of temp_dir)) =
          Some (File ((nl @ ''[package]'' @ nl) @ ''name = '' @ dq @ str_lower token_name @
                      ''_package'' @ dq @
                      (nl @ ''version = '' @ dq @ ''0.0.1'' @ dq @ nl @ nl @ ''[dependencies]'' @ nl @
             ''AptosFramework = { git = '' @ dq @ ''https://github.com/aptos-labs/aptos-core.git'' @ dq @
             '', subdir = '' @ dq @ ''aptos-move/framework/aptos-framework/'' @ dq @
             '', rev = '' @ dq @ ''main'' @ dq @ '' }'' @ nl @ nl @
             ''[addresses]'' @ nl @
             token_name @ '' = '' @ dq @ address @ dq @ nl)))"
    using prepare_files(2) [OF assms(2)]
    by (simp add: MOVE_TOML_TEMPLATE_def module_name_of_def package_name_of_def)
  then have man: "\<exists>before after. fs_ready (canon (toml_path_of temp_dir)) =
            Some (File (before @ ''name = '' @ dq @ str_lower token_name @ ''_package'' @ dq @ after))"
    by blast
  have tool: "\<forall>aptos aptos'.
            aptos (aptos_args temp_dir address token_name) fs_ready =
              aptos' (aptos_args temp_dir address token_name) fs_ready \<longrightarrow>
            compile_contract str_lower mkdtemp aptos fs_init address token_name =
              compile_contract str_lower mkdtemp aptos' fs_init address token_name"
  proof (intro allI impI)
    fix aptos aptos' :: tool
    assume "aptos (aptos_args temp_dir address token_name) fs_ready =
              aptos' (aptos_args temp_dir address token_name) fs_ready"
    then show "compile_contract str_lower mkdtemp aptos fs_init address token_name =
              compile_contract str_lower mkdtemp aptos' fs_init address token_name"
      unfolding assms(1) by (rule tool_consulted_once [OF assms(2)])
  qed
  have n1: "module_name_of token_name = token_name"
    by (simp add: module_name_of_def)
  have n2: "struct_name_of token_name = module_name_of token_name"
    by (simp add: module_name_of_def struct_name_of_def)
  have n3: "package_name_of str_lower token_name = str_lower token_name @ ''_package''"
    by (simp add: package_name_of_def)
  have ar: "aptos_args temp_dir address token_name =
           [''aptos'', ''move'', ''compile'', ''--save-metadata'', ''--package-dir'', temp_dir,
            ''--named-addresses'', token_name @ ''='' @ address]"
    by (simp add: aptos_args_def module_name_of_def)
  show ?thesis
    by (intro conjI n1 n2 n3 ar src man tool)
qed

lemma prepare_scenario_D:
  "prepare ascii_lower ''/tmp/t'' ''0x1'' ''Coin'' (create_dir ''/tmp/t'' scenario_fs) =
     (Inr (), snd (prepare ascii_lower ''/tmp/t'' ''0x1'' ''Coin'' (create_dir ''/tmp/t'' scenario_fs)))"
proof -
  have "fst (prepare ascii_lower ''/tmp/t'' ''0x1'' ''Coin'' (create_dir ''/tmp/t'' scenario_fs)) = Inr ()"
    by (simp add: prepare_def scenario_fs_def path_defs fs_defs)
  then show ?thesis by (simp add: prod_eq_iff)
qed

theorem names_derived_from_token_name_witness:
  "package_name_of ascii_lower ''Coin'' = ''coin_package'' \<and>
   (\<exists>before after.
      snd (prepare ascii_lower ''/tmp/t'' ''0x1'' ''Coin'' (create_dir ''/tmp/t'' scenario_fs))
        [''tmp'', ''t'', ''Move.toml''] =
      Some (File (before @ ''name = '' @ dq @ ''coin_package'' @ dq @ after)))"
proof -
  have l: "ascii_lower ''Coin'' = ''coin''" by (simp add: ascii_lower_def)
  have c: "canon (toml_path_of ''/tmp/t'') = [''tmp'', ''t'', ''Move.toml'']"
    by (simp add: canon_toml_path) (simp add: canon_def step_def)
  note t = names_derived_from_token_name [OF refl prepare_scenario_D]
  have "package_name_of ascii_lower ''Coin'' = ''coin_package''"
    using t [THEN conjunct2, THEN conjunct2, THEN conjunct1] by (simp add: l)
  moreover have "\<exists>before after.
      snd (prepare ascii_lower ''/tmp/t'' ''0x1'' ''Coin'' (create_dir ''/tmp/t'' scenario_fs))
        [''tmp'', ''t'', ''Move.toml''] =
      Some (File (before @ ''name = '' @ dq @ ''coin_package'' @ dq @ after))"
    using t [THEN conjunct2, THEN conjunct2, THEN conjunct2, THEN conjunct2, THEN conjunct2,
             THEN conjunct1]
    by (simp add: l c)
  ultimately show ?thesis by (rule conjI)
qed

subsection \<open>The rendered files\<close>

text \<open>
  C6, as the code has it. When the token name contains no slash and the files have been
  written, the path \<open>sources/<token_name>.move\<close> resolves to that very entry below the
  temporary directory, and the file there holds the rendered template: the module
  declaration \<open>module <address>::<token_name> {\<close> wrapping the one empty struct
  declaration \<open>struct <token_name> {}\<close>.
\<close>

theorem source_file_written:
  assumes "CHR ''/'' \<notin> set token_name"
    and "prepare str_lower temp_dir address token_name fs_init = (Inr (), fs_ready)"
  shows "canon (contract_path_of temp_dir token_name) =
           canon temp_dir @ [''sources'', token_name @ ''.move''] \<and>
         fs_ready (canon temp_dir @ [''sources'', token_name @ ''.move'']) =
           Some (File (nl @ ''module '' @ address @ ''::'' @ token_name @ '' {'' @ nl @
                       ''    struct '' @ token_name @ '' {}'' @ nl @ ''}'' @ nl))"
  using prepare_files(1) [OF assms(2)] canon_contract_path [OF assms(1)]
  by (simp add: CONTRACT_TEMPLATE_def module_name_of_def struct_name_of_def)

theorem source_file_written_witness:
  "snd (prepare ascii_lower ''/tmp/t'' ''0x1'' ''MyCoin'' (create_dir ''/tmp/t'' scenario_fs))
     [''tmp'', ''t'', ''sources'', ''MyCoin.move''] =
   Some (File (nl @ ''module 0x1::MyCoin {'' @ nl @ ''    struct MyCoin {}'' @ nl @ ''}'' @ nl))"
proof -
  have a: "CHR ''/'' \<notin> set ''MyCoin''" by simp
  have c: "canon ''/tmp/t'' = [''tmp'', ''t'']" by (simp add: canon_def step_def)
  show ?thesis
    using source_file_written [OF a prepare_scenario] by (simp add: c)
qed

text \<open>
  For a token name that begins with a slash \<open>os.path.join\<close> drops the sources
  directory, and for one that climbs with \<open>..\<close> the path resolves above it: in both
  cases the file is written outside the temporary directory. For a token name with a
  slash inside, the directory to write in does not exist and no file is written.
\<close>

theorem source_file_outside_build_directory:
  "fst (prepare ascii_lower ''/tmp/t'' ''0x1'' ''/x'' (create_dir ''/tmp/t'' scenario_fs)) = Inr () \<and>
   snd (prepare ascii_lower ''/tmp/t'' ''0x1'' ''/x'' (create_dir ''/tmp/t'' scenario_fs)) [''x.move''] =
     Some (File (CONTRACT_TEMPLATE ''0x1'' ''/x'' ''/x'')) \<and>
   \<not> prefix (canon ''/tmp/t'') [''x.move''] \<and>
   fst (prepare ascii_lower ''/tmp/t'' ''0x1'' ''../../x'' (create_dir ''/tmp/t'' scenario_fs)) = Inr () \<and>
   snd (prepare ascii_lower ''/tmp/t'' ''0x1'' ''../../x'' (create_dir ''/tmp/t'' scenario_fs))
     [''tmp'', ''x.move''] = Some (File (CONTRACT_TEMPLATE ''0x1'' ''../../x'' ''../../x'')) \<and>
   \<not> prefix (canon ''/tmp/t'') [''tmp'', ''x.move''] \<and>
   fst (prepare ascii_lower ''/tmp/t'' ''0x1'' ''a/b'' (create_dir ''/tmp/t'' scenario_fs)) =
     Inl (Exception (''[Errno 2] No such file or directory: '' @ sq @ ''/tmp/t/sources/a/b.move'' @ sq)) \<and>
   snd (prepare ascii_lower ''/tmp/t'' ''0x1'' ''a/b'' (create_dir ''/tmp/t'' scenario_fs))
     [''tmp'', ''t'', ''sources'', ''a'', ''b.move''] = None"
  by (simp add: prepare_def scenario_fs_def path_defs fs_defs)

text \<open>
  C7, as the code has it. When the files have been written, \<open>Move.toml\<close> at the root of
  the temporary directory holds the manifest: the package name derived from the token
  name, the version \<open>0.0.1\<close>, the dependency \<open>AptosFramework\<close> given by its git URL,
  subdirectory and revision \<open>main\<close>, and the address binding of the module name to the
  address.
\<close>

theorem manifest_file_written:
  assumes "prepare str_lower temp_dir address token_name fs_init = (Inr (), fs_ready)"
  shows "fs_ready (canon temp_dir @ [''Move.toml'']) =
           Some (File (nl @ ''[package]'' @ nl @
             ''name = '' @ dq @ str_lower token_name @ ''_package'' @ dq @ nl @
             ''version = '' @ dq @ ''0.0.1'' @ dq @ nl @ nl @
             ''[dependencies]'' @ nl @
             ''AptosFramework = { git = '' @ dq @ ''https://github.com/aptos-labs/aptos-core.git'' @ dq @
             '', subdir = '' @ dq @ ''aptos-move/framework/aptos-framework/'' @ dq @
             '', rev = '' @ dq @ ''main'' @ dq @ '' }'' @ nl @ nl @
             ''[addresses]'' @ nl @
             token_name @ '' = '' @ dq @ address @ dq @ nl))"
  using prepare_files(2) [OF assms]
  by (simp add: canon_toml_path MOVE_TOML_TEMPLATE_def module_name_of_def package_name_of_def)

theorem manifest_file_written_witness:
  "snd (prepare ascii_lower ''/tmp/t'' ''0x1'' ''MyCoin'' (create_dir ''/tmp/t'' scenario_fs))
     [''tmp'', ''t'', ''Move.toml''] =
     Some (File (nl @ ''[package]'' @ nl @
       ''name = '' @ dq @ ''mycoin_package'' @ dq @ nl @
       ''version = '' @ dq @ ''0.0.1'' @ dq @ nl @ nl @
       ''[dependencies]'' @ nl @
       ''AptosFramework = { git = '' @ dq @ ''https://github.com/aptos-labs/aptos-core.git'' @ dq @
       '', subdir = '' @ dq @ ''aptos-move/framework/aptos-framework/'' @ dq @
       '', rev = '' @ dq @ ''main'' @ dq @ '' }'' @ nl @ nl @
       ''[addresses]'' @ nl @
       ''MyCoin = '' @ dq @ ''0x1'' @ dq @ nl))"
proof -
  have c: "canon ''/tmp/t'' = [''tmp'', ''t'']" by (simp add: canon_def step_def)
  show ?thesis
    using manifest_file_written [OF prepare_scenario] by (simp add: c ascii_lower_def)
qed

text \<open>
  The manifest is written after the source file: for the token name \<open>a/b\<close> the source
  file cannot be opened, the call fails there, and no manifest is written.
\<close>

theorem manifest_not_written_after_failed_source_write:
  "fst (compile_contract ascii_lower (Inr ''/tmp/t'') (stub_success [] []) scenario_fs ''0x1'' ''a/b'') =
     Inl (Exception (''Unexpected error: [Errno 2] No such file or directory: '' @ sq @
                     ''/tmp/t/sources/a/b.move'' @ sq)) \<and>
   snd (prepare ascii_lower ''/tmp/t'' ''0x1'' ''a/b'' (create_dir ''/tmp/t'' scenario_fs))
     [''tmp'', ''t'', ''Move.toml''] = None"
  by (simp add: run_defs stub_success_def path_defs fs_defs split: prod.splits)

subsection \<open>Base64\<close>






subsection \<open>Existing outputs and the listings\<close>











lemma with_body_after_success:
  assumes "prepare str_lower temp_dir address token_name fs_init = (Inr (), fs_ready)"
    and "aptos (aptos_args temp_dir address token_name) fs_ready = (Exited 0 out err, fs_built)"
  shows "with_body str_lower aptos temp_dir address token_name fs_init =
           (collect str_lower temp_dir token_name fs_built, fs_built)"
  using assms by (simp add: with_body_def run_compile_def)


subsection \<open>The result of a successful build\<close>



lemma prepared_scenario:
  "snd (prepare ascii_lower ''/tmp/t'' ''0x1'' ''MyCoin'' (create_dir ''/tmp/t'' scenario_fs)) =
     scenario_fs([''tmp'', ''t''] \<mapsto> Dir, [''tmp'', ''t'', ''sources''] \<mapsto> Dir,
       [''tmp'', ''t'', ''sources'', ''MyCoin.move''] \<mapsto>
         File (CONTRACT_TEMPLATE ''0x1'' ''MyCoin'' ''MyCoin''),
       [''tmp'', ''t'', ''Move.toml''] \<mapsto>
         File (MOVE_TOML_TEMPLATE ''mycoin_package'' ''MyCoin'' ''0x1''))"
  by (simp add: prepare_def path_defs fs_defs scenario_fs_def)


subsection \<open>Missing build outputs\<close>

lemma scenario_A_empty_files:
  "fst (compile_contract ascii_lower (Inr ''/tmp/t'') (stub_success [] []) scenario_fs ''0x1'' ''MyCoin'') =
     Inr [''module'' \<mapsto> [], ''metadata'' \<mapsto> []]"
  by (simp add: run_defs stub_success_def path_defs fs_defs split: prod.splits)


lemma missing_output_raises_naming_path:
  assumes "mkdtemp = Inr temp_dir"
    and "prepare str_lower temp_dir address token_name (create_dir temp_dir fs_init) = (Inr (), fs_ready)"
    and "aptos (aptos_args temp_dir address token_name) fs_ready = (Exited 0 out err, fs_built)"
    and "(if exists_path (build_dir_of str_lower temp_dir token_name) fs_built
          then listdir (build_dir_of str_lower temp_dir token_name) fs_built else Inr ()) = Inr ()"
    and "(if exists_path (modules_dir_of str_lower temp_dir token_name) fs_built
          then listdir (modules_dir_of str_lower temp_dir token_name) fs_built else Inr ()) = Inr ()"
    and "\<not> exists_path (module_path_of str_lower temp_dir token_name) fs_built \<or>
         \<not> exists_path (metadata_path_of str_lower temp_dir token_name) fs_built"
  shows "fst (compile_contract str_lower mkdtemp aptos fs_init address token_name) =
           Inl (Exception (''Unexpected error: '' @
             (if \<not> exists_path (module_path_of str_lower temp_dir token_name) fs_built
              then ''Compiled module file not found at '' @ module_path_of str_lower temp_dir token_name
              else ''Metadata file not found at '' @ metadata_path_of str_lower temp_dir token_name)))"
proof -
  have c: "collect str_lower temp_dir token_name fs_built =
             Inl (Exception
               (if \<not> exists_path (module_path_of str_lower temp_dir token_name) fs_built
                then ''Compiled module file not found at '' @ module_path_of str_lower temp_dir token_name
                else ''Metadata file not found at '' @ metadata_path_of str_lower temp_dir token_name))"
    using assms(6) by (auto simp: collect_def Let_def assms(4,5))
  have "with_body str_lower aptos temp_dir address token_name (create_dir temp_dir fs_init) =
          (collect str_lower temp_dir token_name fs_built, fs_built)"
    using assms(2,3) by (rule with_body_after_success)
  then show ?thesis
    using assms(1) c by (simp add: compile_contract_Inr rewrap_def)
qed

lemma scenario_C_missing_bytecode:
  "fst (compile_contract ascii_lower (Inr ''/tmp/t'') stub_no_bytecode scenario_fs ''0x1'' ''MyCoin'') =
     Inl (Exception (''Unexpected error: Compiled module file not found at '' @
                     ''/tmp/t/build/mycoin_package/bytecode_modules/MyCoin.mv''))"
  by (simp add: run_defs stub_no_bytecode_def path_defs fs_defs split: prod.splits)

text \<open>
  C3. The listing of the build directory that is printed before the two checks is guarded
  by \<open>os.path.exists\<close> alone. A tool that exits with status 0 and leaves a regular file
  where the package's build directory is expected makes \<open>os.listdir\<close> raise: the
  bytecode file does not exist, and the message of the failure names the build
  directory, not the path of the missing bytecode file.
\<close>

theorem listing_error_hides_missing_path:
  "fst (stub_build_is_file (aptos_args ''/tmp/t'' ''0x1'' ''MyCoin'')
          (snd (prepare ascii_lower ''/tmp/t'' ''0x1'' ''MyCoin'' (create_dir ''/tmp/t'' scenario_fs)))) =
     Exited 0 [] [] \<and>
   \<not> exists_path (module_path_of ascii_lower ''/tmp/t'' ''MyCoin'')
       (snd (stub_build_is_file (aptos_args ''/tmp/t'' ''0x1'' ''MyCoin'')
          (snd (prepare ascii_lower ''/tmp/t'' ''0x1'' ''MyCoin'' (create_dir ''/tmp/t'' scenario_fs))))) \<and>
   fst (compile_contract ascii_lower (Inr ''/tmp/t'') stub_build_is_file scenario_fs ''0x1'' ''MyCoin'') =
     Inl (Exception (''Unexpected error: [Errno 20] Not a directory: '' @ sq @
                     ''/tmp/t/build/mycoin_package'' @ sq)) \<and>
   \<not> sublist (module_path_of ascii_lower ''/tmp/t'' ''MyCoin'')
       (''Unexpected error: [Errno 20] Not a directory: '' @ sq @
        ''/tmp/t/build/mycoin_package'' @ sq)"
proof -
  have p: "module_path_of ascii_lower ''/tmp/t'' ''MyCoin'' =
             ''/tmp/t/build/mycoin_package/bytecode_modules/MyCoin.mv''"
    by (simp add: path_defs)
  have "\<not> sublist ''/tmp/t/build/mycoin_package/bytecode_modules/MyCoin.mv''
       (''Unexpected error: [Errno 20] Not a directory: '' @ sq @
        ''/tmp/t/build/mycoin_package'' @ sq)"
    by code_simp
  moreover have "fst (compile_contract ascii_lower (Inr ''/tmp/t'') stub_build_is_file scenario_fs
                        ''0x1'' ''MyCoin'') =
     Inl (Exception (''Unexpected error: [Errno 20] Not a directory: '' @ sq @
                     ''/tmp/t/build/mycoin_package'' @ sq))"
    by (simp add: run_defs stub_build_is_file_def path_defs fs_defs split: prod.splits)
  moreover have "fst (stub_build_is_file (aptos_args ''/tmp/t'' ''0x1'' ''MyCoin'')
          (snd (prepare ascii_lower ''/tmp/t'' ''0x1'' ''MyCoin'' (create_dir ''/tmp/t'' scenario_fs)))) =
     Exited 0 [] []"
    by (simp add: stub_build_is_file_def)
  moreover have "\<not> exists_path ''/tmp/t/build/mycoin_package/bytecode_modules/MyCoin.mv''
       (snd (stub_build_is_file (aptos_args ''/tmp/t'' ''0x1'' ''MyCoin'')
          (snd (prepare ascii_lower ''/tmp/t'' ''0x1'' ''MyCoin'' (create_dir ''/tmp/t'' scenario_fs)))))"
    by (simp add: stub_build_is_file_def prepared_scenario)
       (simp add: fs_defs scenario_fs_def)
  ultimately show ?thesis
    unfolding p by blast
qed

end
